theory Spec2Isabelle
  imports Complex_Main
begin

section \<open>Numbers, errors and strings\<close>

text \<open>
  The calculation core of \<^verbatim>\<open>apppumps.py\<close> is three pure functions over Python
  numbers and one module-level dictionary. Python's \<^verbatim>\<open>float\<close> is modelled by
  \<^typ>\<open>real\<close>: the arithmetic is exact, so rounding, overflow to infinity and NaN are
  outside the model, and every statement below is about the formulas the code evaluates.
  \<^verbatim>\<open>math.pi\<close> is \<^term>\<open>pi\<close>, \<^verbatim>\<open>math.log10 x\<close> is \<^term>\<open>log 10 x\<close>,
  \<^verbatim>\<open>x ** 2\<close> is \<^term>\<open>x ^ 2\<close> and \<^verbatim>\<open>x ** 0.9\<close> (only evaluated at a
  positive base) is \<^term>\<open>x powr 0.9\<close>.

  The exceptions the core can raise are values of \<open>py_error\<close>: a missing dictionary key,
  a float division by zero, and \<^verbatim>\<open>math.log10\<close> outside its domain. The
  \<^verbatim>\<open>OverflowError\<close> that a float \<^verbatim>\<open>**\<close> raises when its result leaves the range
  of a float (the squares of lines 31, 46 and 49, at magnitudes above about 10^154) belongs
  to the overflow the model leaves out: there the program raises and the model computes.
\<close>

datatype py_error = KeyError | ZeroDivisionError | ValueError

text \<open>
  A Python \<^verbatim>\<open>str\<close> is a \<^typ>\<open>string\<close> holding its UTF-8 bytes; the encoding is
  injective, so equality of keys and of messages is the source's.
\<close>

definition a_til :: string where "a_til = [CHR 0xC3, CHR 0xA3]"
definition a_agudo :: string where "a_agudo = [CHR 0xC3, CHR 0xA1]"
definition e_agudo :: string where "e_agudo = [CHR 0xC3, CHR 0xA9]"
definition e_circ :: string where "e_circ = [CHR 0xC3, CHR 0xAA]"
definition o_til :: string where "o_til = [CHR 0xC3, CHR 0xB5]"
definition c_cedilha :: string where "c_cedilha = [CHR 0xC3, CHR 0xA7]"
definition A_agudo :: string where "A_agudo = [CHR 0xC3, CHR 0x81]"
definition O_agudo :: string where "O_agudo = [CHR 0xC3, CHR 0x93]"
definition grau :: string where "grau = [CHR 0xC2, CHR 0xB0]"

lemmas letras_defs =
  a_til_def a_agudo_def e_agudo_def e_circ_def o_til_def c_cedilha_def
  A_agudo_def O_agudo_def grau_def

section \<open>The fluid table\<close>

text \<open>
  Lines 10 to 15. Each entry of \<^verbatim>\<open>FLUIDOS\<close> is a dictionary with the two keys
  \<^verbatim>\<open>"rho"\<close> (density, kg/m3) and \<^verbatim>\<open>"nu"\<close> (kinematic viscosity, m2/s).
\<close>

record fluido =
  rho :: real
  nu :: real

definition Agua_20C :: string where
  "Agua_20C = A_agudo @ ''gua a 20'' @ grau @ ''C''"

definition Etanol_20C :: string where
  "Etanol_20C = ''Etanol a 20'' @ grau @ ''C''"

definition Glicerina_20C :: string where
  "Glicerina_20C = ''Glicerina a 20'' @ grau @ ''C''"

definition Oleo_Leve :: string where
  "Oleo_Leve = O_agudo @ ''leo Leve (gen'' @ e_agudo @ ''rico)''"

lemmas chaves_defs = Agua_20C_def Etanol_20C_def Glicerina_20C_def Oleo_Leve_def

definition FLUIDOS :: "string \<rightharpoonup> fluido" where
  "FLUIDOS =
     [Agua_20C \<mapsto> \<lparr>rho = 998.2, nu = 1.004 / 10 ^ 6\<rparr>,
      Etanol_20C \<mapsto> \<lparr>rho = 789.0, nu = 1.51 / 10 ^ 6\<rparr>,
      Glicerina_20C \<mapsto> \<lparr>rho = 1261.0, nu = 1.49 / 10 ^ 3\<rparr>,
      Oleo_Leve \<mapsto> \<lparr>rho = 880.0, nu = 1.5 / 10 ^ 5\<rparr>]"

text \<open>
  The functions read the module global \<^verbatim>\<open>FLUIDOS\<close> at each call. The model passes the
  dictionary they read as the explicit first argument \<open>tbl\<close>; the program as written is
  the instance \<open>tbl = FLUIDOS\<close>. The subscript \<^verbatim>\<open>FLUIDOS[fluido_selecionado]\<close>
  (lines 27, 28 and 55) raises \<^verbatim>\<open>KeyError\<close> on a key the dictionary does not hold; this
  is the lookup operation of the fluid property table.
\<close>

definition lookup_fluid :: "(string \<rightharpoonup> fluido) \<Rightarrow> string \<Rightarrow> py_error + fluido" where
  "lookup_fluid tbl fluido_selecionado =
     (case tbl fluido_selecionado of
        None \<Rightarrow> Inl KeyError
      | Some fl \<Rightarrow> Inr fl)"

section \<open>Head loss\<close>

text \<open>
  Lines 40 to 43: the friction factor. In the turbulent branch \<^verbatim>\<open>math.log10\<close> raises
  \<^verbatim>\<open>ValueError\<close> on an argument that is not positive, and the division of 0.25 by the
  squared logarithm raises \<^verbatim>\<open>ZeroDivisionError\<close> when the logarithm is zero. The
  divisor \<^verbatim>\<open>3.7 * diametro_m\<close> is not zero where the function is reached (the caller
  has returned on a zero area), and \<^verbatim>\<open>reynolds**0.9\<close> is positive there.
\<close>

definition fator_atrito :: "real \<Rightarrow> real \<Rightarrow> real \<Rightarrow> py_error + real" where
  "fator_atrito reynolds rugosidade_m diametro_m =
     (if reynolds > 4000 then
        (let x = (rugosidade_m / (3.7 * diametro_m)) + (5.74 / reynolds powr 0.9) in
         if x \<le> 0 then Inl ValueError
         else if (log 10 x) ^ 2 = 0 then Inl ZeroDivisionError
         else Inr (0.25 / (log 10 x) ^ 2))
      else Inr (if reynolds > 0 then 64 / reynolds else 0))"

text \<open>Lines 19 to 51. The result is the pair (principal loss, localized loss).\<close>

definition calcular_perda_carga ::
  "(string \<rightharpoonup> fluido) \<Rightarrow> real \<Rightarrow> real \<Rightarrow> real \<Rightarrow> real \<Rightarrow> real \<Rightarrow> string
     \<Rightarrow> py_error + (real \<times> real)" where
  "calcular_perda_carga tbl vazao_m3h diametro_mm comprimento_m rugosidade_mm k_total
       fluido_selecionado =
     (let vazao_m3s = vazao_m3h / 3600;
          diametro_m = diametro_mm / 1000;
          rugosidade_m = rugosidade_mm / 1000
      in case lookup_fluid tbl fluido_selecionado of
           Inl e \<Rightarrow> Inl e
         | Inr fl \<Rightarrow>
            (let nu = nu fl;
                 area = (pi * diametro_m ^ 2) / 4
             in if area = 0 then Inr (0, 0)
                else
                  (let velocidade = vazao_m3s / area;
                       reynolds = (if nu > 0 then (velocidade * diametro_m) / nu else 0)
                   in case fator_atrito reynolds rugosidade_m diametro_m of
                        Inl e \<Rightarrow> Inl e
                      | Inr f \<Rightarrow>
                          Inr (f * (comprimento_m / diametro_m)
                                 * (velocidade ^ 2 / (2 * 9.81)),
                               k_total * (velocidade ^ 2 / (2 * 9.81))))))"

text \<open>
  The local variables \<^verbatim>\<open>velocidade\<close> (line 33) and \<^verbatim>\<open>reynolds\<close> (line 36)
  and the argument of \<^verbatim>\<open>math.log10\<close> (line 41), as functions of the arguments
  of \<^verbatim>\<open>calcular_perda_carga\<close>; the statements about the head loss are written
  with them.
\<close>

definition velocidade_media :: "real \<Rightarrow> real \<Rightarrow> real" where
  "velocidade_media vazao_m3h diametro_mm =
     (vazao_m3h / 3600) / ((pi * (diametro_mm / 1000) ^ 2) / 4)"

definition numero_reynolds :: "real \<Rightarrow> real \<Rightarrow> real \<Rightarrow> real" where
  "numero_reynolds visc vazao_m3h diametro_mm =
     (if visc > 0
      then (velocidade_media vazao_m3h diametro_mm * (diametro_mm / 1000)) / visc
      else 0)"

definition argumento_log :: "real \<Rightarrow> real \<Rightarrow> real \<Rightarrow> real" where
  "argumento_log reynolds rugosidade_mm diametro_mm =
     ((rugosidade_mm / 1000) / (3.7 * (diametro_mm / 1000))) + (5.74 / reynolds powr 0.9)"

section \<open>Energy and cost\<close>

text \<open>
  Lines 53 to 78. The returned dictionary has six fixed keys; it is a record with the
  keys as field names.
\<close>

record resultado =
  potencia_hidraulica_kW :: real
  potencia_eixo_kW :: real
  potencia_eletrica_kW :: real
  consumo_mensal_kWh :: real
  custo_mensal :: real
  custo_anual :: real

definition calcular_analise_energetica ::
  "(string \<rightharpoonup> fluido) \<Rightarrow> real \<Rightarrow> real \<Rightarrow> real \<Rightarrow> real \<Rightarrow> real \<Rightarrow> real \<Rightarrow> string
     \<Rightarrow> py_error + resultado" where
  "calcular_analise_energetica tbl vazao_m3h h_man eficiencia_bomba eficiencia_motor
       horas_dia custo_kwh fluido_selecionado =
     (case lookup_fluid tbl fluido_selecionado of
        Inl e \<Rightarrow> Inl e
      | Inr fl \<Rightarrow>
         (let rho = rho fl;
              g = 9.81;
              vazao_m3s = vazao_m3h / 3600;
              potencia_hidraulica_W = vazao_m3s * rho * g * h_man;
              potencia_eixo_W =
                (if eficiencia_bomba > 0 then potencia_hidraulica_W / eficiencia_bomba
                 else 0);
              potencia_eletrica_W =
                (if eficiencia_motor > 0 then potencia_eixo_W / eficiencia_motor else 0);
              potencia_eletrica_kW = potencia_eletrica_W / 1000;
              consumo_diario_kWh = potencia_eletrica_kW * horas_dia;
              consumo_mensal_kWh = consumo_diario_kWh * 30;
              custo_mensal = consumo_mensal_kWh * custo_kwh;
              custo_anual = custo_mensal * 12
          in Inr \<lparr>potencia_hidraulica_kW = potencia_hidraulica_W / 1000,
                  potencia_eixo_kW = potencia_eixo_W / 1000,
                  potencia_eletrica_kW = potencia_eletrica_kW,
                  consumo_mensal_kWh = consumo_mensal_kWh,
                  custo_mensal = custo_mensal,
                  custo_anual = custo_anual\<rparr>))"

section \<open>Recommendations\<close>

text \<open>Lines 80 to 90. The four fixed messages, then the function appending them.\<close>

definition sugestao_bomba :: string where
  "sugestao_bomba =
     ''Efici'' @ e_circ @ ''ncia da bomba abaixo de 60%. Considere a substitui''
     @ c_cedilha @ a_til @ ''o por um modelo mais moderno e eficiente.''"

definition sugestao_motor :: string where
  "sugestao_motor =
     ''Efici'' @ e_circ @ ''ncia do motor abaixo de 85%. Motores de alto rendimento ''
     @ ''(IR3+) podem gerar grande economia.''"

definition sugestao_inversor :: string where
  "sugestao_inversor =
     ''Se a vaz'' @ a_til @ ''o for vari'' @ a_agudo @ ''vel, um inversor de frequ''
     @ e_circ @ ''ncia pode reduzir drasticamente o consumo de energia.''"

definition sugestao_manutencao :: string where
  "sugestao_manutencao =
     ''Realize manuten'' @ c_cedilha @ o_til @ ''es preventivas, verifique vazamentos ''
     @ ''e o estado dos rotores e selos da bomba.''"

lemmas sugestao_defs =
  sugestao_bomba_def sugestao_motor_def sugestao_inversor_def sugestao_manutencao_def

text \<open>
  The third parameter is \<^verbatim>\<open>custo_anual\<close> in the source; it is written \<open>custo\<close> here,
  the field of \<open>resultado\<close> having taken the name.
\<close>

definition gerar_sugestoes :: "real \<Rightarrow> real \<Rightarrow> real \<Rightarrow> string list" where
  "gerar_sugestoes eficiencia_bomba eficiencia_motor custo =
     (let sugestoes = [];
          sugestoes = (if eficiencia_bomba < 0.6 then sugestoes @ [sugestao_bomba]
                       else sugestoes);
          sugestoes = (if eficiencia_motor < 0.85 then sugestoes @ [sugestao_motor]
                       else sugestoes);
          sugestoes = (if custo > 5000 then sugestoes @ [sugestao_inversor]
                       else sugestoes);
          sugestoes = sugestoes @ [sugestao_manutencao]
      in sugestoes)"

section \<open>Facts about the table\<close>

lemma chaves_distintas:
  "distinct [Agua_20C, Etanol_20C, Glicerina_20C, Oleo_Leve]"
  by (simp add: chaves_defs letras_defs)

lemma FLUIDOS_Agua: "FLUIDOS Agua_20C = Some \<lparr>rho = 998.2, nu = 1.004 / 10 ^ 6\<rparr>"
  using chaves_distintas by (simp add: FLUIDOS_def)

lemma FLUIDOS_Etanol: "FLUIDOS Etanol_20C = Some \<lparr>rho = 789.0, nu = 1.51 / 10 ^ 6\<rparr>"
  using chaves_distintas by (simp add: FLUIDOS_def)

lemma FLUIDOS_Glicerina:
  "FLUIDOS Glicerina_20C = Some \<lparr>rho = 1261.0, nu = 1.49 / 10 ^ 3\<rparr>"
  using chaves_distintas by (simp add: FLUIDOS_def)

lemma FLUIDOS_Oleo: "FLUIDOS Oleo_Leve = Some \<lparr>rho = 880.0, nu = 1.5 / 10 ^ 5\<rparr>"
  using chaves_distintas by (simp add: FLUIDOS_def)

lemma dom_FLUIDOS: "dom FLUIDOS = {Agua_20C, Etanol_20C, Glicerina_20C, Oleo_Leve}"
  by (auto simp: FLUIDOS_def)

lemma Unknown_fora: "''Unknown'' \<notin> dom FLUIDOS"
  by (simp add: dom_FLUIDOS chaves_defs letras_defs)

lemma FLUIDOS_positivo:
  assumes "FLUIDOS k = Some fl"
  shows "0 < rho fl \<and> 0 < nu fl"
proof -
  from assms have "k \<in> dom FLUIDOS" by blast
  then consider "k = Agua_20C" | "k = Etanol_20C" | "k = Glicerina_20C" | "k = Oleo_Leve"
    unfolding dom_FLUIDOS by blast
  then show ?thesis
  proof cases
    case 1 with assms show ?thesis by (auto simp: FLUIDOS_Agua)
  next
    case 2 with assms show ?thesis by (auto simp: FLUIDOS_Etanol)
  next
    case 3 with assms show ?thesis by (auto simp: FLUIDOS_Glicerina)
  next
    case 4 with assms show ?thesis by (auto simp: FLUIDOS_Oleo)
  qed
qed

lemma lookup_fluid_Some: "tbl k = Some fl \<Longrightarrow> lookup_fluid tbl k = Inr fl"
  by (simp add: lookup_fluid_def)

lemma lookup_fluid_None: "tbl k = None \<Longrightarrow> lookup_fluid tbl k = Inl KeyError"
  by (simp add: lookup_fluid_def)

section \<open>The fluid lookup\<close>

text \<open>
  C4. The lookup fails, with the missing-key error, exactly on the keys the table does not
  hold, so looking up "Unknown" fails; on each of the four keys of the table it returns
  the fixed density and kinematic viscosity: water (998.2, 1.004e-6), ethanol
  (789.0, 1.51e-6), glycerin (1261.0, 1.49e-3), light oil (880.0, 1.5e-5).
\<close>

theorem lookup_fluid_table:
  "(lookup_fluid FLUIDOS k = Inl KeyError) = (k \<notin> dom FLUIDOS)
   \<and> isl (lookup_fluid FLUIDOS k) = (k \<notin> dom FLUIDOS)
   \<and> lookup_fluid FLUIDOS ''Unknown'' = Inl KeyError
   \<and> dom FLUIDOS = {Agua_20C, Etanol_20C, Glicerina_20C, Oleo_Leve}
   \<and> lookup_fluid FLUIDOS Agua_20C = Inr \<lparr>rho = 998.2, nu = 1.004 / 10 ^ 6\<rparr>
   \<and> lookup_fluid FLUIDOS Etanol_20C = Inr \<lparr>rho = 789.0, nu = 1.51 / 10 ^ 6\<rparr>
   \<and> lookup_fluid FLUIDOS Glicerina_20C = Inr \<lparr>rho = 1261.0, nu = 1.49 / 10 ^ 3\<rparr>
   \<and> lookup_fluid FLUIDOS Oleo_Leve = Inr \<lparr>rho = 880.0, nu = 1.5 / 10 ^ 5\<rparr>"
proof -
  have "(lookup_fluid FLUIDOS k = Inl KeyError) = (k \<notin> dom FLUIDOS)"
    by (auto simp: lookup_fluid_def split: option.splits)
  moreover have "isl (lookup_fluid FLUIDOS k) = (k \<notin> dom FLUIDOS)"
    by (auto simp: lookup_fluid_def split: option.splits)
  moreover have "lookup_fluid FLUIDOS ''Unknown'' = Inl KeyError"
    using Unknown_fora by (auto intro: lookup_fluid_None)
  ultimately show ?thesis
    by (simp add: dom_FLUIDOS lookup_fluid_Some FLUIDOS_Agua FLUIDOS_Etanol
        FLUIDOS_Glicerina FLUIDOS_Oleo)
qed

section \<open>Degenerate diameter\<close>

lemma area_zero_iff: "((pi * (d / 1000) ^ 2) / 4 = 0) = (d = (0::real))"
  by simp

text \<open>
  C5. With a diameter of 0 the cross-sectional area is 0 and the function returns (0, 0)
  at line 32, before any division, whatever the flow, length, roughness and loss
  coefficient are, for every key the table holds.
\<close>

theorem perda_carga_diametro_zero:
  "k \<in> dom tbl \<Longrightarrow>
     calcular_perda_carga tbl vazao_m3h 0 comprimento_m rugosidade_mm k_total k = Inr (0, 0)"
  by (auto simp: calcular_perda_carga_def lookup_fluid_Some)

theorem perda_carga_diametro_zero_witness:
  "calcular_perda_carga FLUIDOS 50 0 100 0.15 5 Agua_20C = Inr (0, 0)"
  using perda_carga_diametro_zero [of Agua_20C FLUIDOS 50 100 "0.15" 5]
  by (simp add: dom_FLUIDOS)

section \<open>The recommendation list\<close>

lemma sugestoes_distintas:
  "distinct [sugestao_bomba, sugestao_motor, sugestao_inversor, sugestao_manutencao]"
  by (simp add: sugestao_defs letras_defs)

text \<open>
  C8. The list is never empty and ends with the maintenance reminder; before it come, in
  this order, the pump advice (present exactly when the pump efficiency is below 0.60),
  the motor advice (exactly when the motor efficiency is below 0.85) and the
  variable-frequency-drive advice (exactly when the annual cost is above 5000). The four
  messages are different strings, so membership identifies the rule that fired. For
  efficiencies 0.5 and 0.7 and an annual cost of 6000 all four entries are returned.
\<close>

theorem gerar_sugestoes_ordem:
  "gerar_sugestoes eb em c =
     (if eb < 0.6 then [sugestao_bomba] else [])
     @ (if em < 0.85 then [sugestao_motor] else [])
     @ (if c > 5000 then [sugestao_inversor] else [])
     @ [sugestao_manutencao]
   \<and> gerar_sugestoes eb em c \<noteq> []
   \<and> last (gerar_sugestoes eb em c) = sugestao_manutencao
   \<and> distinct (gerar_sugestoes eb em c)
   \<and> (sugestao_bomba \<in> set (gerar_sugestoes eb em c)) = (eb < 0.6)
   \<and> (sugestao_motor \<in> set (gerar_sugestoes eb em c)) = (em < 0.85)
   \<and> (sugestao_inversor \<in> set (gerar_sugestoes eb em c)) = (c > 5000)
   \<and> gerar_sugestoes 0.5 0.7 6000 =
       [sugestao_bomba, sugestao_motor, sugestao_inversor, sugestao_manutencao]
   \<and> length (gerar_sugestoes 0.5 0.7 6000) = 4"
  using sugestoes_distintas by (auto simp: gerar_sugestoes_def)

section \<open>The energy chain\<close>

text \<open>
  The function fails only at the fluid lookup; on a key of the table it returns the
  six figures below. Its two divisions are guarded by the tests of lines 60 and 61.
\<close>

lemma analise_eq:
  "calcular_analise_energetica tbl q h eb em hrs c k =
   (case tbl k of None \<Rightarrow> Inl KeyError | Some fl \<Rightarrow>
     Inr \<lparr>potencia_hidraulica_kW = q / 3600 * rho fl * 9.81 * h / 1000,
          potencia_eixo_kW =
            (if eb > 0 then q / 3600 * rho fl * 9.81 * h / eb else 0) / 1000,
          potencia_eletrica_kW =
            (if em > 0 then (if eb > 0 then q / 3600 * rho fl * 9.81 * h / eb else 0) / em
             else 0) / 1000,
          consumo_mensal_kWh =
            (if em > 0 then (if eb > 0 then q / 3600 * rho fl * 9.81 * h / eb else 0) / em
             else 0) / 1000 * hrs * 30,
          custo_mensal =
            (if em > 0 then (if eb > 0 then q / 3600 * rho fl * 9.81 * h / eb else 0) / em
             else 0) / 1000 * hrs * 30 * c,
          custo_anual =
            (if em > 0 then (if eb > 0 then q / 3600 * rho fl * 9.81 * h / eb else 0) / em
             else 0) / 1000 * hrs * 30 * c * 12\<rparr>)"
  by (simp add: calcular_analise_energetica_def lookup_fluid_def Let_def split: option.splits)

lemma le_divide_eficiencia:
  fixes x e :: real
  assumes "0 \<le> x" "0 < e" "e \<le> 1"
  shows "x \<le> x / e"
proof -
  have "x * e \<le> x * 1" using assms by (intro mult_left_mono) auto
  then show ?thesis using assms by (simp add: pos_le_divide_eq)
qed

lemma analise_erro_KeyError:
  "isl (calcular_analise_energetica tbl q h eb em hrs c k) = (k \<notin> dom tbl)
   \<and> calcular_analise_energetica tbl q h eb em hrs c k \<noteq> Inl ZeroDivisionError
   \<and> calcular_analise_energetica tbl q h eb em hrs c k \<noteq> Inl ValueError"
  by (cases "tbl k") (auto simp: analise_eq)

text \<open>
  C2. As stated, for efficiencies that are only bounded above by 1, the ordering of the
  three powers fails: a pump efficiency of 0 gives a shaft power of 0 below a positive
  hydraulic power (the counterexample below, at flow 50, head 30, motor efficiency 0.9,
  8 hours, tariff 0.75, water). Amended: for a key of the table, a flow and a head that
  are not negative, and both efficiencies in the interval (0, 1], the call returns a
  result with 0 \<le> hydraulic power \<le> shaft power \<le> electrical power.
\<close>

theorem analise_potencias_ordem:
  assumes "k \<in> dom FLUIDOS"
    and "0 \<le> q" and "0 \<le> h"
    and "0 < eb" and "eb \<le> 1" and "0 < em" and "em \<le> 1"
  shows "\<exists>r. calcular_analise_energetica FLUIDOS q h eb em hrs c k = Inr r
           \<and> 0 \<le> potencia_hidraulica_kW r
           \<and> potencia_hidraulica_kW r \<le> potencia_eixo_kW r
           \<and> potencia_eixo_kW r \<le> potencia_eletrica_kW r"
proof -
  from assms(1) obtain fl where fl: "FLUIDOS k = Some fl" by blast
  then have rho: "0 < rho fl" using FLUIDOS_positivo by blast
  define P where "P = q / 3600 * rho fl * 9.81 * h"
  have P0: "0 \<le> P" unfolding P_def using assms(2,3) rho by simp
  have P1: "P \<le> P / eb" using P0 assms(4,5) by (rule le_divide_eficiencia)
  have "0 \<le> P / eb" using P0 P1 by linarith
  then have P2: "P / eb \<le> P / eb / em" using assms(6,7) by (rule le_divide_eficiencia)
  have "0 \<le> P / 1000 \<and> P / 1000 \<le> P / eb / 1000 \<and> P / eb / 1000 \<le> P / eb / em / 1000"
    using P0 P1 P2 by (simp add: divide_right_mono)
  then show ?thesis
    using assms(4,6) by (simp add: analise_eq fl P_def)
qed

theorem analise_potencias_ordem_witness:
  "\<exists>r. calcular_analise_energetica FLUIDOS 50 30 0.7 0.9 8 0.75 Agua_20C = Inr r
           \<and> 0 \<le> potencia_hidraulica_kW r
           \<and> potencia_hidraulica_kW r \<le> potencia_eixo_kW r
           \<and> potencia_eixo_kW r \<le> potencia_eletrica_kW r"
  using analise_potencias_ordem [of Agua_20C 50 30 "0.7" "0.9" 8 "0.75"]
  by (simp add: dom_FLUIDOS)

theorem analise_potencias_ordem_counterexample:
  "calcular_analise_energetica FLUIDOS 50 30 0 0.9 8 0.75 Agua_20C =
     Inr \<lparr>potencia_hidraulica_kW = 4.0801425, potencia_eixo_kW = 0,
          potencia_eletrica_kW = 0, consumo_mensal_kWh = 0, custo_mensal = 0,
          custo_anual = 0\<rparr>
   \<and> \<not> ((4.0801425::real) \<le> 0)"
  by (simp add: analise_eq FLUIDOS_Agua)

text \<open>
  C6. On a key the table holds the call returns a result, whatever the efficiencies:
  the shaft power is the hydraulic power divided by the pump efficiency when that is
  positive and 0 otherwise, the electrical power is the shaft power divided by the motor
  efficiency when that is positive and 0 otherwise, and when either efficiency is 0 the
  electrical power, the monthly energy and both costs are 0.
\<close>

theorem analise_eficiencia_zero:
  assumes "tbl k = Some fl"
  shows "\<exists>r. calcular_analise_energetica tbl q h eb em hrs c k = Inr r
     \<and> potencia_eixo_kW r = (if eb > 0 then q / 3600 * rho fl * 9.81 * h / eb else 0) / 1000
     \<and> potencia_eletrica_kW r =
         (if em > 0 then (if eb > 0 then q / 3600 * rho fl * 9.81 * h / eb else 0) / em
          else 0) / 1000
     \<and> (eb = 0 \<or> em = 0 \<longrightarrow>
          potencia_eletrica_kW r = 0 \<and> consumo_mensal_kWh r = 0
          \<and> custo_mensal r = 0 \<and> custo_anual r = 0)"
  by (auto simp: analise_eq assms)

theorem analise_eficiencia_zero_witness:
  "(\<exists>r. calcular_analise_energetica FLUIDOS 50 30 0 0.9 8 0.75 Agua_20C = Inr r
     \<and> potencia_eletrica_kW r = 0 \<and> consumo_mensal_kWh r = 0
     \<and> custo_mensal r = 0 \<and> custo_anual r = 0)
   \<and> (\<exists>r. calcular_analise_energetica FLUIDOS 50 30 0.7 0 8 0.75 Agua_20C = Inr r
     \<and> potencia_eletrica_kW r = 0 \<and> consumo_mensal_kWh r = 0
     \<and> custo_mensal r = 0 \<and> custo_anual r = 0)"
proof -
  from analise_eficiencia_zero [where tbl = FLUIDOS, OF FLUIDOS_Agua, of 50 30 0 "0.9" 8 "0.75"]
  have a: "\<exists>r. calcular_analise_energetica FLUIDOS 50 30 0 0.9 8 0.75 Agua_20C = Inr r
     \<and> potencia_eletrica_kW r = 0 \<and> consumo_mensal_kWh r = 0
     \<and> custo_mensal r = 0 \<and> custo_anual r = 0"
    by blast
  from analise_eficiencia_zero [where tbl = FLUIDOS, OF FLUIDOS_Agua, of 50 30 "0.7" 0 8 "0.75"]
  have b: "\<exists>r. calcular_analise_energetica FLUIDOS 50 30 0.7 0 8 0.75 Agua_20C = Inr r
     \<and> potencia_eletrica_kW r = 0 \<and> consumo_mensal_kWh r = 0
     \<and> custo_mensal r = 0 \<and> custo_anual r = 0"
    by blast
  from a b show ?thesis by (rule conjI)
qed

text \<open>
  C10. The energy calculation reads only the density of the selected fluid: two keys of
  the dictionary whose entries have the same density give the same result, whatever
  their viscosities, all other arguments being equal.
\<close>

theorem analise_so_densidade:
  assumes "tbl k1 = Some f1" and "tbl k2 = Some f2" and "rho f1 = rho f2"
  shows "calcular_analise_energetica tbl q h eb em hrs c k1 =
         calcular_analise_energetica tbl q h eb em hrs c k2"
  by (simp add: analise_eq assms)

theorem analise_so_densidade_witness:
  "calcular_analise_energetica
      (FLUIDOS(''Salmoura'' \<mapsto> \<lparr>rho = 998.2, nu = 2 / 10 ^ 6\<rparr>))
      50 30 0.7 0.9 8 0.75 Agua_20C =
   calcular_analise_energetica
      (FLUIDOS(''Salmoura'' \<mapsto> \<lparr>rho = 998.2, nu = 2 / 10 ^ 6\<rparr>))
      50 30 0.7 0.9 8 0.75 ''Salmoura''"
proof -
  let ?s = "\<lparr>rho = 998.2, nu = 2 / 10 ^ 6\<rparr> :: fluido"
  let ?tbl = "FLUIDOS(''Salmoura'' \<mapsto> ?s)"
  have neq: "Agua_20C \<noteq> ''Salmoura''"
    by (simp add: chaves_defs letras_defs)
  have 1: "?tbl Agua_20C = Some \<lparr>rho = 998.2, nu = 1.004 / 10 ^ 6\<rparr>"
    using neq by (simp add: FLUIDOS_Agua)
  have 2: "?tbl ''Salmoura'' = Some ?s"
    by simp
  show ?thesis
    using analise_so_densidade [where tbl = ?tbl, OF 1 2] by simp
qed

text \<open>
  C7. The annual cost does not decrease when the flow rate, the manometric head, the
  hours per day and the tariff grow, efficiencies and fluid held fixed: for two inputs
  with these four arguments non-negative and each one of the first at most the one of
  the second, the first annual cost is at most the second. Changing one of the four and
  keeping the other three is the special case the claim names.
\<close>

theorem custo_anual_monotono:
  assumes "k \<in> dom FLUIDOS"
    and "0 \<le> q" "q \<le> q'" and "0 \<le> h" "h \<le> h'"
    and "0 \<le> hrs" "hrs \<le> hrs'" and "0 \<le> c" "c \<le> c'"
  shows "\<exists>r r'. calcular_analise_energetica FLUIDOS q h eb em hrs c k = Inr r
           \<and> calcular_analise_energetica FLUIDOS q' h' eb em hrs' c' k = Inr r'
           \<and> custo_anual r \<le> custo_anual r'"
proof -
  from assms(1) obtain fl where fl: "FLUIDOS k = Some fl" by blast
  then have rho: "0 < rho fl" using FLUIDOS_positivo by blast
  define W where
    "W = (if eb > 0 \<and> em > 0 then rho fl * 9.81 * 30 * 12 / (3600 * 1000 * eb * em) else 0)"
  have W0: "0 \<le> W" unfolding W_def using rho by simp
  have eq: "(if em > 0 then (if eb > 0 then a / 3600 * rho fl * 9.81 * b / eb else 0) / em
             else 0) / 1000 * t * 30 * p * 12 = W * (a * b * t * p)" for a b t p :: real
    unfolding W_def by (simp add: mult_ac)
  have "q * h \<le> q' * h'" using assms by (intro mult_mono) auto
  moreover have "0 \<le> q * h" using assms by simp
  ultimately have "q * h * hrs \<le> q' * h' * hrs'" using assms by (intro mult_mono) auto
  moreover have "0 \<le> q * h * hrs" using assms by simp
  ultimately have "q * h * hrs * c \<le> q' * h' * hrs' * c'" using assms by (intro mult_mono) auto
  then have "W * (q * h * hrs * c) \<le> W * (q' * h' * hrs' * c')"
    using W0 by (rule mult_left_mono)
  then show ?thesis
    by (simp only: analise_eq fl option.case eq [symmetric]) simp
qed

theorem custo_anual_monotono_witness:
  "\<exists>r r'. calcular_analise_energetica FLUIDOS 50 30 0.7 0.9 8 0.75 Agua_20C = Inr r
           \<and> calcular_analise_energetica FLUIDOS 60 35 0.7 0.9 12 0.8 Agua_20C = Inr r'
           \<and> custo_anual r \<le> custo_anual r'"
  using custo_anual_monotono [of Agua_20C 50 60 30 35 8 12 "0.75" "0.8" "0.7" "0.9"]
  by (simp add: dom_FLUIDOS)

section \<open>The head loss in terms of velocity and Reynolds number\<close>

lemma perda_carga_eq:
  assumes "tbl k = Some fl" and "d \<noteq> 0"
  shows "calcular_perda_carga tbl q d L e K k =
     (case fator_atrito (numero_reynolds (nu fl) q d) (e / 1000) (d / 1000) of
        Inl err \<Rightarrow> Inl err
      | Inr f \<Rightarrow> Inr (f * (L / (d / 1000)) * ((velocidade_media q d) ^ 2 / (2 * 9.81)),
                     K * ((velocidade_media q d) ^ 2 / (2 * 9.81))))"
  unfolding calcular_perda_carga_def Let_def numero_reynolds_def velocidade_media_def
    lookup_fluid_def
  using assms by simp

lemma log_sq_zero_iff:
  fixes x :: real
  assumes "0 < x"
  shows "((log 10 x) ^ 2 = 0) = (x = 1)"
proof -
  have "(log 10 x = 0) = (x = 1)"
    using assms by (simp add: log_def)
  then show ?thesis by simp
qed

lemma fator_atrito_eq:
  "fator_atrito R (e / 1000) (d / 1000) =
     (if R > 4000 then
        (if argumento_log R e d \<le> 0 then Inl ValueError
         else if argumento_log R e d = 1 then Inl ZeroDivisionError
         else Inr (0.25 / (log 10 (argumento_log R e d)) ^ 2))
      else if R > 0 then Inr (64 / R)
      else Inr 0)"
proof (cases "0 < argumento_log R e d")
  case True
  then show ?thesis
    using log_sq_zero_iff [OF True]
    unfolding fator_atrito_def argumento_log_def Let_def by auto
next
  case False
  then show ?thesis
    unfolding fator_atrito_def argumento_log_def Let_def by auto
qed

lemma powr09_grande:
  fixes x :: real
  assumes "4000 < x"
  shows "6 < x powr 0.9"
proof -
  have "6 = sqrt 36" by simp
  also have "\<dots> < sqrt x" using assms by (intro real_sqrt_less_mono) simp
  also have "\<dots> = x powr (1/2)" using assms by (simp add: powr_half_sqrt)
  also have "\<dots> \<le> x powr 0.9" using assms by (intro powr_mono) auto
  finally show ?thesis .
qed

lemma perda_carga_zero:
  "k \<in> dom tbl \<Longrightarrow> calcular_perda_carga tbl q 0 L e K k = Inr (0, 0)"
  by (auto simp: calcular_perda_carga_def lookup_fluid_Some)

lemma reynolds_agua_50_100: "4000 < velocidade_media 50 100 * (100 / 1000) / (1.004 / 10 ^ 6)"
proof -
  have "velocidade_media 50 100 * (100 / 1000) / (1.004 / 10 ^ 6) = 5000000 / (9.036 * pi)"
    by (simp add: velocidade_media_def field_simps)
  moreover have "4000 * (9.036 * pi) < 5000000"
    using pi_less_4 by simp
  ultimately show ?thesis
    by (simp add: pos_less_divide_eq)
qed

lemma reynolds_agua_50_1000:
  "4000 < velocidade_media 50 1000 * (1000 / 1000) / (1.004 / 10 ^ 6)"
proof -
  have "velocidade_media 50 1000 * (1000 / 1000) / (1.004 / 10 ^ 6) = 500000 / (9.036 * pi)"
    by (simp add: velocidade_media_def field_simps)
  moreover have "4000 * (9.036 * pi) < 500000"
    using pi_less_4 by simp
  ultimately show ?thesis
    by (simp add: pos_less_divide_eq)
qed

lemma reynolds_glicerina_1_100:
  "0 < velocidade_media 1 100 * (100 / 1000) / (1.49 / 10 ^ 3)
   \<and> \<not> 4000 < velocidade_media 1 100 * (100 / 1000) / (1.49 / 10 ^ 3)"
proof -
  have eq: "velocidade_media 1 100 * (100 / 1000) / (1.49 / 10 ^ 3) = 100 / (13.41 * pi)"
    by (simp add: velocidade_media_def field_simps)
  have "100 < 4000 * (13.41 * pi)"
    using pi_ge_two by simp
  then have "100 / (13.41 * pi) < 4000"
    by (simp add: pos_divide_less_eq)
  moreover have "0 < 100 / (13.41 * pi)" by simp
  ultimately show ?thesis unfolding eq by simp
qed

lemma termo_reynolds_pequeno:
  fixes x :: real
  assumes "4000 < x"
  shows "0 < 5.74 / x powr 0.9 \<and> 5.74 / x powr 0.9 < 5.74 / 6"
proof -
  have p: "6 < x powr 0.9" using assms by (rule powr09_grande)
  then have "0 < 5.74 / x powr 0.9" using assms by simp
  moreover have "5.74 / x powr 0.9 < 5.74 / 6"
    using p by (intro divide_strict_left_mono) auto
  ultimately show ?thesis by simp
qed

text \<open>
  The division by the squared logarithm is reached with a roughness that is not
  negative: in exact arithmetic, for water at a flow of 50 and a diameter of 1000, the
  roughness 3700 (1 - 5.74 / Re^0.9) makes the argument of the logarithm equal to 1.
\<close>

lemma perda_carga_divisao_por_zero:
  "0 \<le> 3700 * (1 - 5.74 / (velocidade_media 50 1000 * (1000 / 1000) / (1.004 / 10 ^ 6)) powr 0.9)
   \<and> calcular_perda_carga FLUIDOS 50 1000 100
        (3700 * (1 - 5.74 / (velocidade_media 50 1000 * (1000 / 1000) / (1.004 / 10 ^ 6)) powr 0.9))
        5 Agua_20C = Inl ZeroDivisionError"
proof -
  let ?R = "velocidade_media 50 1000 * (1000 / 1000) / (1.004 / 10 ^ 6)"
  define t where "t = 5.74 / ?R powr 0.9"
  let ?e = "3700 * (1 - t)"
  have R: "4000 < ?R" by (rule reynolds_agua_50_1000)
  have t: "0 < t \<and> t < 5.74 / 6"
    unfolding t_def using R by (rule termo_reynolds_pequeno)
  have e0: "0 \<le> ?e" using t by simp
  have x: "argumento_log ?R ?e 1000 = 1"
  proof -
    have "argumento_log ?R ?e 1000 = (?e / 1000) / (3.7 * (1000 / 1000)) + t"
      unfolding argumento_log_def t_def by (rule refl)
    also have "\<dots> = 1" by (simp add: field_simps)
    finally show ?thesis .
  qed
  have N: "numero_reynolds (nu \<lparr>rho = 998.2, nu = 1.004 / 10 ^ 6\<rparr>) 50 1000 = ?R"
    by (simp add: numero_reynolds_def)
  have "fator_atrito ?R (?e / 1000) (1000 / 1000) = Inl ZeroDivisionError"
    using R by (simp only: fator_atrito_eq x if_True) simp
  then have "calcular_perda_carga FLUIDOS 50 1000 100 ?e 5 Agua_20C = Inl ZeroDivisionError"
    using perda_carga_eq [where tbl = FLUIDOS, OF FLUIDOS_Agua, of 1000 50 100 ?e 5]
    by (simp only: N) simp
  with e0 show ?thesis unfolding t_def by simp
qed

section \<open>The friction factor\<close>

text \<open>
  C1. As stated, for every input with positive diameter and viscosity, the claim fails
  where the turbulent branch raises: with water, a flow of 50, a diameter of 1000 and a
  roughness of -3700 the Reynolds number is above 4000, the argument of the logarithm is
  negative and the call ends in \<^verbatim>\<open>ValueError\<close>, so no friction factor is used (the
  counterexample below). Amended: for a key of the dictionary with positive viscosity
  and a positive diameter, with Re = v D / nu and x = eps / (3.7 D) + 5.74 / Re^0.9, the
  friction factor that multiplies (L / D) (v^2 / (2 * 9.81)) in the principal loss is
  64 / Re when 0 < Re \<le> 4000, is 0 when Re \<le> 0, and when Re > 4000 it is
  0.25 / (log10 x)^2 provided x is positive and differs from 1; when Re > 4000 and
  x \<le> 0 the call raises \<^verbatim>\<open>ValueError\<close>, and when Re > 4000 and x = 1 it raises
  \<^verbatim>\<open>ZeroDivisionError\<close>.
\<close>

theorem fator_atrito_ramos:
  fixes q d L e K :: real and fl :: fluido
  assumes "tbl k = Some fl" and "0 < nu fl" and "0 < d"
  defines "v \<equiv> velocidade_media q d"
    and "R \<equiv> velocidade_media q d * (d / 1000) / nu fl"
  shows "calcular_perda_carga tbl q d L e K k =
           (case fator_atrito R (e / 1000) (d / 1000) of
              Inl err \<Rightarrow> Inl err
            | Inr f \<Rightarrow> Inr (f * (L / (d / 1000)) * (v ^ 2 / (2 * 9.81)),
                           K * (v ^ 2 / (2 * 9.81))))
         \<and> fator_atrito R (e / 1000) (d / 1000) =
           (if R > 4000 then
              (if argumento_log R e d \<le> 0 then Inl ValueError
               else if argumento_log R e d = 1 then Inl ZeroDivisionError
               else Inr (0.25 / (log 10 (argumento_log R e d)) ^ 2))
            else if R > 0 then Inr (64 / R)
            else Inr 0)"
proof -
  have "numero_reynolds (nu fl) q d = R"
    using assms(2) by (simp add: numero_reynolds_def R_def)
  moreover have "d \<noteq> 0" using assms(3) by simp
  ultimately show ?thesis
    using perda_carga_eq [where tbl = tbl, OF assms(1), of d q L e K]
    by (simp add: fator_atrito_eq v_def)
qed

theorem fator_atrito_ramos_witness:
  "calcular_perda_carga FLUIDOS 50 100 100 0.15 5 Agua_20C =
     Inr (0.25 / (log 10 (argumento_log
                    (velocidade_media 50 100 * (100 / 1000) / (1.004 / 10 ^ 6)) 0.15 100)) ^ 2
            * (100 / (100 / 1000)) * ((velocidade_media 50 100) ^ 2 / (2 * 9.81)),
          5 * ((velocidade_media 50 100) ^ 2 / (2 * 9.81)))
   \<and> calcular_perda_carga FLUIDOS 1 100 100 0.15 5 Glicerina_20C =
     Inr (64 / (velocidade_media 1 100 * (100 / 1000) / (1.49 / 10 ^ 3))
            * (100 / (100 / 1000)) * ((velocidade_media 1 100) ^ 2 / (2 * 9.81)),
          5 * ((velocidade_media 1 100) ^ 2 / (2 * 9.81)))"
proof -
  let ?R = "velocidade_media 50 100 * (100 / 1000) / (1.004 / 10 ^ 6)"
  let ?x = "argumento_log ?R 0.15 100"
  define t where "t = 5.74 / ?R powr 0.9"
  have R: "4000 < ?R" by (rule reynolds_agua_50_100)
  have t: "0 < t \<and> t < 5.74 / 6"
    unfolding t_def using R by (rule termo_reynolds_pequeno)
  have x: "?x = (0.15 / 1000) / (3.7 * (100 / 1000)) + t"
    by (simp add: argumento_log_def t_def)
  have x0: "\<not> ?x \<le> 0" unfolding x using t by simp
  have x1: "?x \<noteq> 1" unfolding x using t by simp
  have turbulento: "calcular_perda_carga FLUIDOS 50 100 100 0.15 5 Agua_20C =
     Inr (0.25 / (log 10 ?x) ^ 2
            * (100 / (100 / 1000)) * ((velocidade_media 50 100) ^ 2 / (2 * 9.81)),
          5 * ((velocidade_media 50 100) ^ 2 / (2 * 9.81)))"
    using fator_atrito_ramos [where tbl = FLUIDOS, OF FLUIDOS_Agua, of 100 50 100 "0.15" 5]
      R x0 x1
    by simp
  let ?Rg = "velocidade_media 1 100 * (100 / 1000) / (1.49 / 10 ^ 3)"
  have Rg: "0 < ?Rg \<and> \<not> 4000 < ?Rg" by (rule reynolds_glicerina_1_100)
  have laminar: "calcular_perda_carga FLUIDOS 1 100 100 0.15 5 Glicerina_20C =
     Inr (64 / ?Rg
            * (100 / (100 / 1000)) * ((velocidade_media 1 100) ^ 2 / (2 * 9.81)),
          5 * ((velocidade_media 1 100) ^ 2 / (2 * 9.81)))"
    using fator_atrito_ramos [where tbl = FLUIDOS, OF FLUIDOS_Glicerina, of 100 1 100 "0.15" 5]
      Rg
    by simp
  from turbulento laminar show ?thesis by (rule conjI)
qed

theorem fator_atrito_ramos_counterexample:
  "calcular_perda_carga FLUIDOS 50 1000 100 (- 3700) 5 Agua_20C = Inl ValueError"
proof -
  let ?R = "velocidade_media 50 1000 * (1000 / 1000) / (1.004 / 10 ^ 6)"
  let ?x = "argumento_log ?R (- 3700) 1000"
  define t where "t = 5.74 / ?R powr 0.9"
  have R: "4000 < ?R" by (rule reynolds_agua_50_1000)
  have t: "0 < t \<and> t < 5.74 / 6"
    unfolding t_def using R by (rule termo_reynolds_pequeno)
  have x: "?x = (- 3700 / 1000) / (3.7 * (1000 / 1000)) + t"
    by (simp add: argumento_log_def t_def)
  have x0: "?x \<le> 0" unfolding x using t by simp
  have N: "numero_reynolds (nu \<lparr>rho = 998.2, nu = 1.004 / 10 ^ 6\<rparr>) 50 1000 = ?R"
    by (simp add: numero_reynolds_def)
  have "fator_atrito ?R (- 3700 / 1000) (1000 / 1000) = Inl ValueError"
    using R x0 by (simp only: fator_atrito_eq if_True)
  then show ?thesis
    using perda_carga_eq [where tbl = FLUIDOS, OF FLUIDOS_Agua, of 1000 50 100 "- 3700" 5]
    by (simp only: N) simp
qed

section \<open>Negative flow\<close>

text \<open>
  C9. With a negative flow rate, a positive diameter, a positive viscosity and a positive
  loss coefficient, the velocity and the Reynolds number are negative, neither branch
  assigns a friction factor other than 0, and the call returns a principal loss of
  exactly 0 together with the localized loss K v^2 / (2 * 9.81), which is positive.
\<close>

theorem perda_carga_vazao_negativa:
  assumes "tbl k = Some fl" and "q < 0" and "0 < d" and "0 < nu fl" and "0 < K"
  shows "calcular_perda_carga tbl q d L e K k =
           Inr (0, K * ((velocidade_media q d) ^ 2 / (2 * 9.81)))
         \<and> 0 < K * ((velocidade_media q d) ^ 2 / (2 * 9.81))"
proof -
  have v: "velocidade_media q d < 0"
    unfolding velocidade_media_def using assms(2,3)
    by (intro divide_neg_pos) auto
  have "velocidade_media q d * (d / 1000) / nu fl < 0"
    using v assms(3,4) by (intro divide_neg_pos mult_neg_pos) auto
  then have R: "numero_reynolds (nu fl) q d < 0"
    using assms(4) by (simp add: numero_reynolds_def)
  then have f: "fator_atrito (numero_reynolds (nu fl) q d) (e / 1000) (d / 1000) = Inr 0"
    by (simp add: fator_atrito_eq)
  have "d \<noteq> 0" using assms(3) by simp
  then have "calcular_perda_carga tbl q d L e K k =
           Inr (0, K * ((velocidade_media q d) ^ 2 / (2 * 9.81)))"
    using perda_carga_eq [where tbl = tbl, OF assms(1), of d q L e K] f by simp
  moreover have "0 < (velocidade_media q d) ^ 2" using v by simp
  then have "0 < K * ((velocidade_media q d) ^ 2 / (2 * 9.81))"
    using assms(5) by simp
  ultimately show ?thesis by simp
qed

theorem perda_carga_vazao_negativa_witness:
  "calcular_perda_carga FLUIDOS (- 50) 100 100 0.15 5 Agua_20C =
           Inr (0, 5 * ((velocidade_media (- 50) 100) ^ 2 / (2 * 9.81)))
         \<and> 0 < 5 * ((velocidade_media (- 50) 100) ^ 2 / (2 * 9.81))"
  using perda_carga_vazao_negativa
    [where tbl = FLUIDOS, OF FLUIDOS_Agua, of "- 50" 100 5 100 "0.15"]
  by simp

section \<open>No validation of the inputs\<close>

lemma perda_carga_linear_comprimento:
  "calcular_perda_carga tbl q d L e K k =
     map_sum id (\<lambda>(h, hk). (L * h, hk)) (calcular_perda_carga tbl q d 1 e K k)"
  unfolding calcular_perda_carga_def Let_def
  by (simp split: sum.splits)

lemma reynolds_sinais_opostos:
  assumes "0 < visc" and "d \<noteq> 0" and "q * d \<le> 0"
  shows "numero_reynolds visc q d \<le> 0"
proof -
  define w where "w = 4 / (3600 * 1000 * (pi * (d / 1000) ^ 2))"
  have w: "0 < w" unfolding w_def using assms(2) by simp
  have eq: "velocidade_media q d * (d / 1000) = (q * d) * w"
    unfolding velocidade_media_def w_def by simp
  have "(q * d) * w \<le> 0"
    using assms(3) w by (simp add: mult_nonpos_nonneg)
  then have "velocidade_media q d * (d / 1000) \<le> 0"
    unfolding eq .
  then have "velocidade_media q d * (d / 1000) / visc \<le> 0"
    using assms(1) by (rule divide_nonpos_pos)
  then show ?thesis
    using assms(1) by (simp only: numero_reynolds_def if_True)
qed

text \<open>
  C3. As stated, the claim fails: neither function tests the sign or the range of an
  argument. With a flow of -50, a pump efficiency of 2 and 25 hours per day the energy
  calculation returns negative powers and costs, and with a flow of -50 and a length of
  -100 the head-loss calculation returns a pair (the counterexample below). Amended: a
  negative or out-of-range argument is not rejected but computed by the same formulas
  as any other. On a key of the dictionary, the energy calculation returns the six
  figures of its formulas for all numbers (negative flow, efficiencies outside [0, 1]
  and hours outside [0, 24] included), with an electrical power, a monthly energy and
  costs of 0 when either efficiency is 0. In the head-loss calculation the length is only
  the factor L of the principal loss: the call with length L fails as the call with
  length 1 does, and otherwise returns L times its principal loss and the same localized
  loss, so a negative length gives the negated loss. For a flow and a diameter of
  opposite signs, or a flow of 0, with a positive viscosity, a flow of magnitude at most
  10^9 and a diameter of magnitude between 1/1000 and 10^9 (where the squares of lines
  31 and 46 stay far from the range limit of a float), it returns a principal loss of 0
  and the localized loss K v^2 / (2 * 9.81). With a diameter of 0 it returns (0, 0).
\<close>

theorem sem_validacao_de_entradas:
  assumes "tbl k = Some fl"
  shows "calcular_analise_energetica tbl q h eb em hrs c k =
           Inr \<lparr>potencia_hidraulica_kW = q / 3600 * rho fl * 9.81 * h / 1000,
                potencia_eixo_kW =
                  (if eb > 0 then q / 3600 * rho fl * 9.81 * h / eb else 0) / 1000,
                potencia_eletrica_kW =
                  (if em > 0
                   then (if eb > 0 then q / 3600 * rho fl * 9.81 * h / eb else 0) / em
                   else 0) / 1000,
                consumo_mensal_kWh =
                  (if em > 0
                   then (if eb > 0 then q / 3600 * rho fl * 9.81 * h / eb else 0) / em
                   else 0) / 1000 * hrs * 30,
                custo_mensal =
                  (if em > 0
                   then (if eb > 0 then q / 3600 * rho fl * 9.81 * h / eb else 0) / em
                   else 0) / 1000 * hrs * 30 * c,
                custo_anual =
                  (if em > 0
                   then (if eb > 0 then q / 3600 * rho fl * 9.81 * h / eb else 0) / em
                   else 0) / 1000 * hrs * 30 * c * 12\<rparr>
         \<and> (eb = 0 \<or> em = 0 \<longrightarrow>
              calcular_analise_energetica tbl q h eb em hrs c k =
                Inr \<lparr>potencia_hidraulica_kW = q / 3600 * rho fl * 9.81 * h / 1000,
                     potencia_eixo_kW =
                       (if eb > 0 then q / 3600 * rho fl * 9.81 * h / eb else 0) / 1000,
                     potencia_eletrica_kW = 0, consumo_mensal_kWh = 0,
                     custo_mensal = 0, custo_anual = 0\<rparr>)
         \<and> calcular_perda_carga tbl q d L e K k =
              map_sum id (\<lambda>(h, hk). (L * h, hk)) (calcular_perda_carga tbl q d 1 e K k)
         \<and> (0 < nu fl \<and> q * d \<le> 0 \<and> \<bar>q\<bar> \<le> 10 ^ 9
              \<and> 1 / 1000 \<le> \<bar>d\<bar> \<and> \<bar>d\<bar> \<le> 10 ^ 9 \<longrightarrow>
              calcular_perda_carga tbl q d L e K k =
                Inr (0, K * ((velocidade_media q d) ^ 2 / (2 * 9.81))))
         \<and> calcular_perda_carga tbl q 0 L e K k = Inr (0, 0)"
proof -
  have energia: "calcular_analise_energetica tbl q h eb em hrs c k =
           Inr \<lparr>potencia_hidraulica_kW = q / 3600 * rho fl * 9.81 * h / 1000,
                potencia_eixo_kW =
                  (if eb > 0 then q / 3600 * rho fl * 9.81 * h / eb else 0) / 1000,
                potencia_eletrica_kW =
                  (if em > 0
                   then (if eb > 0 then q / 3600 * rho fl * 9.81 * h / eb else 0) / em
                   else 0) / 1000,
                consumo_mensal_kWh =
                  (if em > 0
                   then (if eb > 0 then q / 3600 * rho fl * 9.81 * h / eb else 0) / em
                   else 0) / 1000 * hrs * 30,
                custo_mensal =
                  (if em > 0
                   then (if eb > 0 then q / 3600 * rho fl * 9.81 * h / eb else 0) / em
                   else 0) / 1000 * hrs * 30 * c,
                custo_anual =
                  (if em > 0
                   then (if eb > 0 then q / 3600 * rho fl * 9.81 * h / eb else 0) / em
                   else 0) / 1000 * hrs * 30 * c * 12\<rparr>"
    using assms by (simp add: analise_eq)
  have zero_ef: "eb = 0 \<or> em = 0 \<longrightarrow>
              calcular_analise_energetica tbl q h eb em hrs c k =
                Inr \<lparr>potencia_hidraulica_kW = q / 3600 * rho fl * 9.81 * h / 1000,
                     potencia_eixo_kW =
                       (if eb > 0 then q / 3600 * rho fl * 9.81 * h / eb else 0) / 1000,
                     potencia_eletrica_kW = 0, consumo_mensal_kWh = 0,
                     custo_mensal = 0, custo_anual = 0\<rparr>"
    using assms by (auto simp: analise_eq)
  have comprimento: "calcular_perda_carga tbl q d L e K k =
              map_sum id (\<lambda>(h, hk). (L * h, hk)) (calcular_perda_carga tbl q d 1 e K k)"
    by (rule perda_carga_linear_comprimento)
  have sinais: "0 < nu fl \<and> q * d \<le> 0 \<and> \<bar>q\<bar> \<le> 10 ^ 9
              \<and> 1 / 1000 \<le> \<bar>d\<bar> \<and> \<bar>d\<bar> \<le> 10 ^ 9 \<longrightarrow>
              calcular_perda_carga tbl q d L e K k =
                Inr (0, K * ((velocidade_media q d) ^ 2 / (2 * 9.81)))"
  proof (intro impI)
    assume h: "0 < nu fl \<and> q * d \<le> 0 \<and> \<bar>q\<bar> \<le> 10 ^ 9
              \<and> 1 / 1000 \<le> \<bar>d\<bar> \<and> \<bar>d\<bar> \<le> 10 ^ 9"
    then have d: "d \<noteq> 0" by auto
    have "numero_reynolds (nu fl) q d \<le> 0"
      using h d by (intro reynolds_sinais_opostos) auto
    then have "fator_atrito (numero_reynolds (nu fl) q d) (e / 1000) (d / 1000) = Inr 0"
      by (simp add: fator_atrito_eq)
    then show "calcular_perda_carga tbl q d L e K k =
                Inr (0, K * ((velocidade_media q d) ^ 2 / (2 * 9.81)))"
      using perda_carga_eq [where tbl = tbl, OF assms d, of q L e K] by simp
  qed
  have "k \<in> dom tbl" using assms by blast
  then have zero_d: "calcular_perda_carga tbl q 0 L e K k = Inr (0, 0)"
    by (rule perda_carga_zero)
  from energia zero_ef comprimento sinais zero_d show ?thesis
    by (intro conjI)
qed

theorem sem_validacao_de_entradas_witness:
  "calcular_analise_energetica FLUIDOS (- 50) 30 0 1.5 30 1 Agua_20C =
     Inr \<lparr>potencia_hidraulica_kW = - 4.0801425, potencia_eixo_kW = 0,
          potencia_eletrica_kW = 0, consumo_mensal_kWh = 0, custo_mensal = 0,
          custo_anual = 0\<rparr>
   \<and> calcular_perda_carga FLUIDOS 50 (- 100) (- 100) 0.15 5 Agua_20C =
     Inr (0, 5 * ((velocidade_media 50 (- 100)) ^ 2 / (2 * 9.81)))
   \<and> calcular_perda_carga FLUIDOS (- 50) 0 (- 100) 0.15 5 Agua_20C = Inr (0, 0)"
proof -
  note T = sem_validacao_de_entradas [where tbl = FLUIDOS, OF FLUIDOS_Agua]
  have a: "calcular_analise_energetica FLUIDOS (- 50) 30 0 1.5 30 1 Agua_20C =
     Inr \<lparr>potencia_hidraulica_kW = - 4.0801425, potencia_eixo_kW = 0,
          potencia_eletrica_kW = 0, consumo_mensal_kWh = 0, custo_mensal = 0,
          custo_anual = 0\<rparr>"
    using T [of "- 50" 30 0 "1.5" 30 1 0 1 0 0, THEN conjunct2, THEN conjunct1]
    by simp
  have b: "calcular_perda_carga FLUIDOS 50 (- 100) (- 100) 0.15 5 Agua_20C =
     Inr (0, 5 * ((velocidade_media 50 (- 100)) ^ 2 / (2 * 9.81)))"
    by (rule T [of 50 0 0 0 0 0 "- 100" "- 100" "0.15" 5,
          THEN conjunct2, THEN conjunct2, THEN conjunct2, THEN conjunct1, THEN mp])
      simp
  have c: "calcular_perda_carga FLUIDOS (- 50) 0 (- 100) 0.15 5 Agua_20C = Inr (0, 0)"
    by (rule T [of "- 50" 0 0 0 0 0 1 "- 100" "0.15" 5,
          THEN conjunct2, THEN conjunct2, THEN conjunct2, THEN conjunct2])
  from a b c show ?thesis by (intro conjI)
qed

theorem sem_validacao_de_entradas_counterexample:
  "calcular_analise_energetica FLUIDOS (- 50) 30 2 0.5 25 1 Agua_20C =
     Inr \<lparr>potencia_hidraulica_kW = - 4.0801425, potencia_eixo_kW = - 2.04007125,
          potencia_eletrica_kW = - 4.0801425, consumo_mensal_kWh = - 3060.106875,
          custo_mensal = - 3060.106875, custo_anual = - 36721.2825\<rparr>
   \<and> calcular_perda_carga FLUIDOS (- 50) 100 (- 100) 0.15 5 Agua_20C =
     Inr (0, 5 * ((velocidade_media (- 50) 100) ^ 2 / (2 * 9.81)))"
proof -
  have "velocidade_media (- 50) 100 < 0"
    unfolding velocidade_media_def by (intro divide_neg_pos) auto
  then have "numero_reynolds (nu \<lparr>rho = 998.2, nu = 1.004 / 10 ^ 6\<rparr>) (- 50) 100 < 0"
    by (simp add: numero_reynolds_def divide_neg_pos mult_neg_pos)
  then have "fator_atrito (numero_reynolds (nu \<lparr>rho = 998.2, nu = 1.004 / 10 ^ 6\<rparr>) (- 50) 100)
               (0.15 / 1000) (100 / 1000) = Inr 0"
    by (simp only: fator_atrito_eq) simp
  then have "calcular_perda_carga FLUIDOS (- 50) 100 (- 100) 0.15 5 Agua_20C =
     Inr (0, 5 * ((velocidade_media (- 50) 100) ^ 2 / (2 * 9.81)))"
    using perda_carga_eq [where tbl = FLUIDOS, OF FLUIDOS_Agua, of 100 "- 50" "- 100" "0.15" 5]
    by simp
  moreover have "calcular_analise_energetica FLUIDOS (- 50) 30 2 0.5 25 1 Agua_20C =
     Inr \<lparr>potencia_hidraulica_kW = - 4.0801425, potencia_eixo_kW = - 2.04007125,
          potencia_eletrica_kW = - 4.0801425, consumo_mensal_kWh = - 3060.106875,
          custo_mensal = - 3060.106875, custo_anual = - 36721.2825\<rparr>"
    by (simp add: analise_eq FLUIDOS_Agua)
  ultimately show ?thesis by simp
qed

end
